theory Spec2Isabelle
  imports Main "HOL-Library.Word"
begin

section \<open>Hex text and byte buffers\<close>

type_synonym byte = "8 word"

text \<open>
  Modelled from the spec: the class \<open>HexString\<close> of \<open>hex_string.ts\<close> is not part of
  the sources at hand; only its test file is. The definitions of this section follow the
  spec (HexCodec: conversion between raw byte buffers and \<open>0x\<close>-prefixed, lowercase,
  even-length hex text; HexString: a wrapper with two textual forms, with and without the
  \<open>0x\<close> prefix) and the method names the test file calls.
\<close>

definition hex_digit :: "nat \<Rightarrow> char" where
  "hex_digit n = ''0123456789abcdef'' ! n"

definition digit_val :: "char \<Rightarrow> nat option" where
  "digit_val c =
     (let k = (of_char c :: nat)
      in if 48 \<le> k \<and> k \<le> 57 then Some (k - 48)
         else if 97 \<le> k \<and> k \<le> 102 then Some (k - 87)
         else None)"

definition byte_hex :: "byte \<Rightarrow> string" where
  "byte_hex b = [hex_digit (unat b div 16), hex_digit (unat b mod 16)]"

text \<open>Modelled from the spec: a buffer rendered as lowercase hex, two digits per byte.\<close>

definition buffer_toString_hex :: "byte list \<Rightarrow> string" where
  "buffer_toString_hex bs = concat (map byte_hex bs)"

text \<open>
  Modelled from the spec: hex text read back as bytes. Text of odd length or with a
  character that is not a lowercase hex digit is not an accepted form: the result is
  \<open>None\<close>.
\<close>

fun Buffer_from_hex :: "string \<Rightarrow> byte list option" where
  "Buffer_from_hex [] = Some []"
| "Buffer_from_hex [c] = None"
| "Buffer_from_hex (c1 # c2 # rest) =
     (case digit_val c1 of
        None \<Rightarrow> None
      | Some hi \<Rightarrow>
          (case digit_val c2 of
             None \<Rightarrow> None
           | Some lo \<Rightarrow>
               (case Buffer_from_hex rest of
                  None \<Rightarrow> None
                | Some bs \<Rightarrow> Some (word_of_nat (16 * hi + lo) # bs))))"

datatype HexString = MkHexString (hexString: string)

definition startsWith_0x :: "string \<Rightarrow> bool" where
  "startsWith_0x s = (take 2 s = ''0x'')"

text \<open>
  Modelled from the spec: the constructor accepts both textual forms and stores the
  prefixed one (the tests "accepts input without prefix" and "accepts input with prefix"
  expect \<open>hex()\<close> to be the prefixed text in both cases).
\<close>

definition HexString_new :: "string \<Rightarrow> HexString" where
  "HexString_new s = MkHexString (if startsWith_0x s then s else ''0x'' @ s)"

definition hex :: "HexString \<Rightarrow> string" where
  "hex h = hexString h"

definition toString :: "HexString \<Rightarrow> string" where
  "toString h = hex h"

definition noPrefix :: "HexString \<Rightarrow> string" where
  "noPrefix h = drop 2 (hexString h)"

text \<open>\<open>MaybeHexString\<close> is \<open>string | HexString\<close>.\<close>

type_synonym MaybeHexString = "string + HexString"

fun ensure :: "MaybeHexString \<Rightarrow> HexString" where
  "ensure (Inl s) = HexString_new s"
| "ensure (Inr h) = h"

definition fromBuffer :: "byte list \<Rightarrow> HexString" where
  "fromBuffer buffer = HexString_new (buffer_toString_hex buffer)"

definition toBuffer :: "HexString \<Rightarrow> byte list option" where
  "toBuffer h = Buffer_from_hex (noPrefix h)"

text \<open>Modelled from the spec: the two directions of the codec, in the spec's names.\<close>

definition toHex :: "byte list \<Rightarrow> string" where
  "toHex b = hex (fromBuffer b)"

definition fromHex :: "string \<Rightarrow> byte list option" where
  "fromHex s = toBuffer (HexString_new s)"

text \<open>The characters of the canonical form after its prefix.\<close>

definition is_lower_hex :: "char \<Rightarrow> bool" where
  "is_lower_hex c = (digit_val c \<noteq> None)"

text \<open>
  An accepted textual form: an even number of lowercase hex digits, with or without the
  \<open>0x\<close> prefix.
\<close>

definition accepted_hex :: "string \<Rightarrow> bool" where
  "accepted_hex s =
     (let body = (if startsWith_0x s then drop 2 s else s)
      in even (length body) \<and> list_all is_lower_hex body)"

text \<open>The canonical rendering of an accepted form: the same digits behind \<open>0x\<close>.\<close>

definition canonical :: "string \<Rightarrow> string" where
  "canonical s = hex (HexString_new s)"

section \<open>Token events\<close>

text \<open>The interface \<open>TokenId\<close> of \<open>wallet_client.ts\<close>.\<close>

record TokenId =
  creator :: string
  collectionName :: string
  name :: string

text \<open>
  An event as the reconciler reads it: \<open>elem.data.id\<close> is the token identity. The
  sequence number and the amount are carried by the events of the chain and are never read
  by \<open>getTokenIds\<close>.
\<close>

record event_data =
  id_field :: TokenId
  amount_field :: int

record event =
  sequence_number :: nat
  data :: event_data

text \<open>The local function \<open>isEventEqual\<close> of \<open>getTokenIds\<close>.\<close>

definition isEventEqual :: "event \<Rightarrow> event \<Rightarrow> bool" where
  "isEventEqual event1 event2 =
     (creator (id_field (data event1)) = creator (id_field (data event2)) \<and>
      collectionName (id_field (data event1)) = collectionName (id_field (data event2)) \<and>
      name (id_field (data event1)) = name (id_field (data event2)))"

text \<open>
  The three loops of \<open>getTokenIds\<close> over \<open>depositEvents\<close>; \<open>tokenIds\<close> is the array
  that \<open>push\<close> extends.
\<close>

fun push_all :: "event list \<Rightarrow> TokenId list \<Rightarrow> TokenId list" where
  "push_all [] tokenIds = tokenIds"
| "push_all (elem # rest) tokenIds = push_all rest (tokenIds @ [id_field (data elem)])"

fun push_minted :: "string \<Rightarrow> event list \<Rightarrow> TokenId list \<Rightarrow> TokenId list" where
  "push_minted address [] tokenIds = tokenIds"
| "push_minted address (elem # rest) tokenIds =
     (if creator (id_field (data elem)) = ''0x'' @ address
      then push_minted address rest (tokenIds @ [id_field (data elem)])
      else push_minted address rest tokenIds)"

fun push_owned :: "event list \<Rightarrow> event list \<Rightarrow> TokenId list \<Rightarrow> TokenId list" where
  "push_owned withdrawEvents [] tokenIds = tokenIds"
| "push_owned withdrawEvents (elem # rest) tokenIds =
     (if \<not> list_ex (\<lambda>item. isEventEqual item elem) withdrawEvents
      then push_owned withdrawEvents rest (tokenIds @ [id_field (data elem)])
      else push_owned withdrawEvents rest tokenIds)"

text \<open>The token identities that occur in a stream of events.\<close>

definition identities :: "event list \<Rightarrow> TokenId set" where
  "identities events = (\<lambda>e. id_field (data e)) ` set events"

section \<open>Collaborators and effects\<close>

text \<open>
  A promise is rejected with any value: the string literal of
  \<open>getAccountFromMnemonic\<close>, or whatever a collaborator throws.
\<close>

datatype 'j rejection = Reject_string string | Reject_value 'j

text \<open>The payload object literal built by \<open>RestClient.transfer\<close> and \<open>signGenericTransaction\<close>.\<close>

record payload =
  type_field :: string
  function_field :: string
  type_arguments :: "string list"
  arguments :: "string list"

text \<open>
  The calls the wallet client makes across its boundary, with their arguments: the
  mnemonic generator, the seed derivation and the account constructor (the calls that
  yield key material), \<open>fetch\<close>, the faucet client, the Aptos client and the token client.
  \<open>'a\<close> is the class \<open>AptosAccount\<close>, \<open>'j\<close> the untyped values the collaborators hand
  back (transaction requests, signed transactions, results).
\<close>

datatype ('a, 'j) call =
    Bip39_generateMnemonic
  | Bip39_mnemonicToSeedSync string
  | AptosAccount_new "byte list" "MaybeHexString option"
  | Fetch_GET string
  | Faucet_fundAccount MaybeHexString int
  | Aptos_generateTransaction HexString payload
  | Aptos_signTransaction 'a 'j
  | Aptos_submitTransaction 'a 'j
  | Aptos_waitForTransaction string
  | Token_createCollection 'a string string string
  | Token_createToken 'a string string string int string
  | Token_offerToken 'a string string string string int
  | Token_getTokenId string string string
  | Token_cancelTokenOffer 'a string string 'j
  | Token_claimToken 'a string string string string
  | Token_submitTransactionHelper 'a payload

text \<open>
  The response of \<open>fetch\<close>: its status and what \<open>response.json()\<close> settles to.

  Modelled from the spec: \<open>next_cursor\<close> is the optional next cursor that a page of the
  event-fetch collaborator carries (\<open>getEventPage ... -> {events, nextCursor?}\<close>); the
  source never reads it.
\<close>

record 'j response =
  status :: nat
  json :: "'j rejection + event list"
  next_cursor :: "string option"

text \<open>
  The world outside the wallet client. The libraries (\<open>bip39\<close>, the constructor and the
  two getters of \<open>AptosAccount\<close>) are functions; a collaborator that does I/O answers a
  call depending on the calls made so far. \<open>validateMnemonic\<close> is a test of its
  argument; a call of \<open>mnemonicToSeedSync\<close> or of the constructor is recorded among the
  calls made. \<open>Number_toString_inexact\<close> is what the engine prints for a number that is
  not an integer of the exact range (see \<open>Number_toString\<close> below).
\<close>

record ('a, 'j) env =
  nodeUrl :: string
  validateMnemonic :: "string \<Rightarrow> bool"
  mnemonicToSeedSync :: "string \<Rightarrow> byte list"
  generateMnemonic :: "('a, 'j) call list \<Rightarrow> string"
  new_AptosAccount :: "byte list \<Rightarrow> MaybeHexString option \<Rightarrow> 'a"
  account_authKey :: "'a \<Rightarrow> HexString"
  account_address :: "'a \<Rightarrow> HexString"
  fetch :: "('a, 'j) call list \<Rightarrow> string \<Rightarrow> 'j rejection + 'j response"
  collaborator :: "('a, 'j) call list \<Rightarrow> ('a, 'j) call \<Rightarrow> 'j rejection + 'j"
  hash_toString :: "'j \<Rightarrow> 'j rejection + string"
  Number_toString_inexact :: "int \<Rightarrow> string"

text \<open>
  An asynchronous operation: from the calls made so far to its settlement (\<open>Inl\<close>
  rejected, \<open>Inr\<close> resolved) and the calls made by then.
\<close>

type_synonym ('a, 'j, 'r) promise =
  "('a, 'j) call list \<Rightarrow> ('j rejection + 'r) \<times> ('a, 'j) call list"

definition resolve :: "'r \<Rightarrow> ('a, 'j, 'r) promise" where
  "resolve x = (\<lambda>log. (Inr x, log))"

definition reject :: "'j rejection \<Rightarrow> ('a, 'j, 'r) promise" where
  "reject e = (\<lambda>log. (Inl e, log))"

definition settled :: "'j rejection + 'r \<Rightarrow> ('a, 'j, 'r) promise" where
  "settled v = (\<lambda>log. (v, log))"

text \<open>\<open>const x = await m; f x\<close> (and \<open>m.then(f)\<close>): a rejection of \<open>m\<close> ends the function.\<close>

definition await :: "('a, 'j, 'r) promise \<Rightarrow> ('r \<Rightarrow> ('a, 'j, 's) promise) \<Rightarrow> ('a, 'j, 's) promise" where
  "await m f = (\<lambda>log. case m log of (Inl e, log') \<Rightarrow> (Inl e, log') | (Inr x, log') \<Rightarrow> f x log')"

text \<open>\<open>m.catch(h)\<close>.\<close>

definition catch :: "('a, 'j, 'r) promise \<Rightarrow> ('j rejection \<Rightarrow> ('a, 'j, 'r) promise) \<Rightarrow> ('a, 'j, 'r) promise" where
  "catch m h = (\<lambda>log. case m log of (Inl e, log') \<Rightarrow> h e log' | (Inr x, log') \<Rightarrow> (Inr x, log'))"

definition perform :: "('a, 'j) env \<Rightarrow> ('a, 'j) call \<Rightarrow> ('a, 'j, 'j) promise" where
  "perform env c = (\<lambda>log. (collaborator env log c, log @ [c]))"

definition perform_fetch :: "('a, 'j) env \<Rightarrow> string \<Rightarrow> ('a, 'j, 'j response) promise" where
  "perform_fetch env url = (\<lambda>log. (fetch env log url, log @ [Fetch_GET url]))"

definition perform_generateMnemonic :: "('a, 'j) env \<Rightarrow> ('a, 'j, string) promise" where
  "perform_generateMnemonic env = (\<lambda>log. (Inr (generateMnemonic env log), log @ [Bip39_generateMnemonic]))"

definition perform_mnemonicToSeedSync :: "('a, 'j) env \<Rightarrow> string \<Rightarrow> ('a, 'j, byte list) promise" where
  "perform_mnemonicToSeedSync env code =
     (\<lambda>log. (Inr (mnemonicToSeedSync env code), log @ [Bip39_mnemonicToSeedSync code]))"

definition perform_new_AptosAccount ::
  "('a, 'j) env \<Rightarrow> byte list \<Rightarrow> MaybeHexString option \<Rightarrow> ('a, 'j, 'a) promise" where
  "perform_new_AptosAccount env privateKeyBytes addr =
     (\<lambda>log. (Inr (new_AptosAccount env privateKeyBytes addr), log @ [AptosAccount_new privateKeyBytes addr]))"

section \<open>Numbers as text\<close>

text \<open>
  \<open>amount.toString()\<close> on a JavaScript number. For an integer of the range where
  numbers are exact integers (up to \<open>Number.MAX_SAFE_INTEGER\<close> in absolute value) the text
  is the decimal digits, behind a minus sign for a negative number. Beyond that range the
  engine prints rounded digits, and the exponent form from \<open>1e21\<close> on (\<open>1e+21\<close>): that
  text is not computed here, it is taken from the environment.
\<close>

definition MAX_SAFE_INTEGER :: int where
  "MAX_SAFE_INTEGER = 9007199254740991"

definition dec_digit :: "nat \<Rightarrow> char" where
  "dec_digit n = ''0123456789'' ! n"

fun dec_digits :: "nat \<Rightarrow> string" where
  "dec_digits n = (if n < 10 then [dec_digit n] else dec_digits (n div 10) @ [dec_digit (n mod 10)])"

declare dec_digits.simps [simp del]

definition Number_toString :: "('a, 'j) env \<Rightarrow> int \<Rightarrow> string" where
  "Number_toString env n =
     (if n < - MAX_SAFE_INTEGER \<or> MAX_SAFE_INTEGER < n then Number_toString_inexact env n
      else if n < 0 then ''-'' @ dec_digits (nat (- n))
      else dec_digits (nat n))"

text \<open>What a string of decimal digits denotes, read from the left.\<close>

definition is_dec_digit :: "char \<Rightarrow> bool" where
  "is_dec_digit c = (48 \<le> (of_char c :: nat) \<and> (of_char c :: nat) \<le> 57)"

definition dec_value :: "string \<Rightarrow> nat" where
  "dec_value s = foldl (\<lambda>acc c. 10 * acc + ((of_char c :: nat) - 48)) 0 s"

section \<open>RestClient\<close>

text \<open>The object literal \<open>payload\<close> of \<open>RestClient.transfer\<close>.\<close>

definition transfer_payload :: "('a, 'j) env \<Rightarrow> string \<Rightarrow> int \<Rightarrow> payload" where
  "transfer_payload env recipient amount =
     \<lparr> type_field = ''script_function_payload'',
       function_field = ''0x1::TestCoin::transfer'',
       type_arguments = [],
       arguments = [toString (ensure (Inl recipient)), Number_toString env amount] \<rparr>"

definition RestClient_transfer :: "('a, 'j) env \<Rightarrow> 'a \<Rightarrow> string \<Rightarrow> int \<Rightarrow> ('a, 'j, string) promise" where
  "RestClient_transfer env accountFrom recipient amount =
     (let payload = transfer_payload env recipient amount in
      await (perform env (Aptos_generateTransaction (account_address env accountFrom) payload)) (\<lambda>txnRequest.
      await (perform env (Aptos_signTransaction accountFrom txnRequest)) (\<lambda>signedTxn.
      await (perform env (Aptos_submitTransaction accountFrom signedTxn)) (\<lambda>res.
      settled (hash_toString env res)))))"

definition waitForTransaction :: "('a, 'j) env \<Rightarrow> string \<Rightarrow> ('a, 'j, 'j) promise" where
  "waitForTransaction env txnHash = perform env (Aptos_waitForTransaction txnHash)"

section \<open>WalletClient\<close>

definition getAccountFromMnemonic ::
  "('a, 'j) env \<Rightarrow> string \<Rightarrow> MaybeHexString option \<Rightarrow> ('a, 'j, 'a) promise" where
  "getAccountFromMnemonic env code addr =
     (if \<not> validateMnemonic env code
      then reject (Reject_string ''Incorrect mnemonic passed'')
      else await (perform_mnemonicToSeedSync env code) (\<lambda>seed.
           await (perform_new_AptosAccount env (take 32 seed) addr) (\<lambda>account.
           resolve account)))"

text \<open>
  Every facade operation starts with
  \<open>await this.getAccountFromMnemonic(code, address).catch((msg) => Promise.reject(msg))\<close>.
\<close>

definition account_of :: "('a, 'j) env \<Rightarrow> string \<Rightarrow> string option \<Rightarrow> ('a, 'j, 'a) promise" where
  "account_of env code addr =
     catch (getAccountFromMnemonic env code (map_option Inl addr)) (\<lambda>msg. reject msg)"

text \<open>The objects that \<open>createWallet\<close> and \<open>importWallet\<close> resolve to.\<close>

record created_wallet =
  code_field :: string
  address_key :: string

record imported_wallet =
  auth_key :: HexString
  address_key' :: string

definition createWallet :: "('a, 'j) env \<Rightarrow> ('a, 'j, created_wallet) promise" where
  "createWallet env =
     await (perform_generateMnemonic env) (\<lambda>code.
     await (account_of env code None) (\<lambda>account.
     await (perform env (Faucet_fundAccount (Inr (account_authKey env account)) 10)) (\<lambda>_.
     resolve \<lparr> code_field = code, address_key = noPrefix (account_address env account) \<rparr>)))"

definition importWallet :: "('a, 'j) env \<Rightarrow> string \<Rightarrow> string option \<Rightarrow> ('a, 'j, imported_wallet) promise" where
  "importWallet env code addr =
     await (account_of env code addr) (\<lambda>account.
     await (perform env (Faucet_fundAccount (Inr (account_authKey env account)) 10)) (\<lambda>_.
     resolve \<lparr> auth_key = account_authKey env account, address_key' = noPrefix (account_address env account) \<rparr>))"

definition transfer ::
  "('a, 'j) env \<Rightarrow> string \<Rightarrow> string \<Rightarrow> int \<Rightarrow> string option \<Rightarrow> ('a, 'j, unit) promise" where
  "transfer env code recipient_address amount sender_address =
     await (account_of env code sender_address) (\<lambda>account.
     await (RestClient_transfer env account recipient_address amount) (\<lambda>txHash.
     await (catch (await (waitForTransaction env txHash) (\<lambda>_. resolve True)) (\<lambda>msg. reject msg)) (\<lambda>_.
     resolve ())))"

definition createNFTCollection ::
  "('a, 'j) env \<Rightarrow> string \<Rightarrow> string \<Rightarrow> string \<Rightarrow> string \<Rightarrow> string option \<Rightarrow> ('a, 'j, 'j) promise" where
  "createNFTCollection env code name_arg description uri addr =
     await (account_of env code addr) (\<lambda>account.
     perform env (Token_createCollection account name_arg description uri))"

definition createNFT ::
  "('a, 'j) env \<Rightarrow> string \<Rightarrow> string \<Rightarrow> string \<Rightarrow> string \<Rightarrow> int \<Rightarrow> string \<Rightarrow> string option
     \<Rightarrow> ('a, 'j, 'j) promise" where
  "createNFT env code collection_name name_arg description supply uri addr =
     await (account_of env code addr) (\<lambda>account.
     perform env (Token_createToken account collection_name name_arg description supply uri))"

definition offerNFT ::
  "('a, 'j) env \<Rightarrow> string \<Rightarrow> string \<Rightarrow> string \<Rightarrow> string \<Rightarrow> string \<Rightarrow> int \<Rightarrow> string option
     \<Rightarrow> ('a, 'j, 'j) promise" where
  "offerNFT env code receiver_address creator_address collection_name token_name amount addr =
     await (account_of env code addr) (\<lambda>account.
     perform env (Token_offerToken account receiver_address creator_address collection_name token_name amount))"

definition cancelNFTOffer ::
  "('a, 'j) env \<Rightarrow> string \<Rightarrow> string \<Rightarrow> string \<Rightarrow> string \<Rightarrow> string \<Rightarrow> string option
     \<Rightarrow> ('a, 'j, 'j) promise" where
  "cancelNFTOffer env code receiver_address creator_address collection_name token_name addr =
     await (account_of env code addr) (\<lambda>account.
     await (perform env (Token_getTokenId creator_address collection_name token_name)) (\<lambda>token_id.
     perform env (Token_cancelTokenOffer account receiver_address creator_address token_id)))"

definition claimNFT ::
  "('a, 'j) env \<Rightarrow> string \<Rightarrow> string \<Rightarrow> string \<Rightarrow> string \<Rightarrow> string \<Rightarrow> string option
     \<Rightarrow> ('a, 'j, 'j) promise" where
  "claimNFT env code sender_address creator_address collection_name token_name addr =
     await (account_of env code addr) (\<lambda>account.
     perform env (Token_claimToken account sender_address creator_address collection_name token_name))"

definition signGenericTransaction ::
  "('a, 'j) env \<Rightarrow> string \<Rightarrow> string \<Rightarrow> string option \<Rightarrow> string list \<Rightarrow> ('a, 'j, 'j) promise" where
  "signGenericTransaction env code func addr args =
     await (account_of env code addr) (\<lambda>account.
     (let payload = \<lparr> type_field = ''script_function_payload'',
                       function_field = func,
                       type_arguments = [],
                       arguments = args \<rparr>
      in perform env (Token_submitTransactionHelper account payload)))"

definition event_url :: "('a, 'j) env \<Rightarrow> string \<Rightarrow> string \<Rightarrow> string \<Rightarrow> string" where
  "event_url env addr eventHandleStruct fieldName =
     nodeUrl env @ ''/accounts/'' @ addr @ ''/events/'' @ eventHandleStruct @ ''/'' @ fieldName"

text \<open>
  \<open>getEventStream\<close>: one \<open>fetch\<close> of the stream's URL. On status 404 the source logs
  \<open>response.json()\<close> without awaiting it and returns the empty array; the promise it
  logs has no part in the result.
\<close>

definition getEventStream ::
  "('a, 'j) env \<Rightarrow> string \<Rightarrow> string \<Rightarrow> string \<Rightarrow> ('a, 'j, event list) promise" where
  "getEventStream env addr eventHandleStruct fieldName =
     await (perform_fetch env (event_url env addr eventHandleStruct fieldName)) (\<lambda>response.
     if status response = 404 then resolve [] else settled (json response))"

text \<open>
  \<open>getTokenIds\<close>: both streams are awaited first, whatever the flags are; \<open>getAll\<close> is
  tested before \<open>getMinted\<close>.
\<close>

definition getTokenIds ::
  "('a, 'j) env \<Rightarrow> string \<Rightarrow> bool \<Rightarrow> bool \<Rightarrow> ('a, 'j, TokenId list) promise" where
  "getTokenIds env addr getAll getMinted =
     await (getEventStream env addr ''0x1::Token::TokenStore'' ''deposit_events'') (\<lambda>depositEvents.
     await (getEventStream env addr ''0x1::Token::TokenStore'' ''withdraw_events'') (\<lambda>withdrawEvents.
     resolve (if getAll then push_all depositEvents []
              else if getMinted then push_minted addr depositEvents []
              else push_owned withdrawEvents depositEvents [])))"

section \<open>Concrete collaborators\<close>

text \<open>
  A small world to run the client in: one mnemonic is valid, an account is the pair of
  arguments it was constructed from, every collaborator call succeeds, and the node serves
  the two event streams of one address.
\<close>

type_synonym demo_account = "byte list \<times> MaybeHexString option"

definition demo_address :: "demo_account \<Rightarrow> HexString" where
  "demo_address acct = (case snd acct of None \<Rightarrow> fromBuffer (fst acct) | Some a \<Rightarrow> ensure a)"

definition ok_response :: "event list \<Rightarrow> string option \<Rightarrow> string response" where
  "ok_response events cursor = \<lparr> status = 200, json = Inr events, next_cursor = cursor \<rparr>"

definition not_found :: "string response" where
  "not_found = \<lparr> status = 404, json = Inl (Reject_string ''resource not found''), next_cursor = None \<rparr>"

definition demo_fetch ::
  "string \<Rightarrow> event list \<Rightarrow> event list \<Rightarrow> (demo_account, string) call list \<Rightarrow> string
     \<Rightarrow> string rejection + string response" where
  "demo_fetch addr deposits withdrawals log url =
     (if url = ''http://node/accounts/'' @ addr @ ''/events/0x1::Token::TokenStore/deposit_events''
      then Inr (ok_response deposits None)
      else if url = ''http://node/accounts/'' @ addr @ ''/events/0x1::Token::TokenStore/withdraw_events''
      then Inr (ok_response withdrawals None)
      else Inr not_found)"

definition demo_env :: "string \<Rightarrow> event list \<Rightarrow> event list \<Rightarrow> (demo_account, string) env" where
  "demo_env addr deposits withdrawals =
     \<lparr> nodeUrl = ''http://node'',
       validateMnemonic = (\<lambda>code. code = ''abandon ability able''),
       mnemonicToSeedSync = (\<lambda>code. replicate 40 1),
       generateMnemonic = (\<lambda>log. ''abandon ability able''),
       new_AptosAccount = (\<lambda>key a. (key, a)),
       account_authKey = (\<lambda>acct. fromBuffer (fst acct)),
       account_address = demo_address,
       fetch = demo_fetch addr deposits withdrawals,
       collaborator = (\<lambda>log c. Inr ''0xhash''),
       hash_toString = (\<lambda>res. Inr res),
       Number_toString_inexact = (\<lambda>n. ''1e+21'') \<rparr>"

definition token :: "string \<Rightarrow> string \<Rightarrow> TokenId" where
  "token c n = \<lparr> creator = c, collectionName = ''AliceCollection'', name = n \<rparr>"

definition ev :: "nat \<Rightarrow> TokenId \<Rightarrow> int \<Rightarrow> event" where
  "ev n i k = \<lparr> sequence_number = n, data = \<lparr> id_field = i, amount_field = k \<rparr> \<rparr>"



section \<open>The loops of the reconciler\<close>

lemma push_all_eq: "push_all es acc = acc @ map (\<lambda>e. id_field (data e)) es"
  by (induction es arbitrary: acc) auto


lemma push_owned_eq:
  "push_owned ws es acc =
     acc @ map (\<lambda>e. id_field (data e)) (filter (\<lambda>e. \<not> list_ex (\<lambda>item. isEventEqual item e) ws) es)"
  by (induction es arbitrary: acc) auto

lemma isEventEqual_iff: "isEventEqual e1 e2 \<longleftrightarrow> id_field (data e1) = id_field (data e2)"
  by (auto simp: isEventEqual_def intro: TokenId.equality)

lemma withdrawn_iff:
  "list_ex (\<lambda>item. isEventEqual item e) ws \<longleftrightarrow> id_field (data e) \<in> (\<lambda>w. id_field (data w)) ` set ws"
proof -
  have "(\<exists>item\<in>set ws. id_field (data item) = id_field (data e))
      \<longleftrightarrow> (\<exists>item\<in>set ws. id_field (data e) = id_field (data item))"
    by metis
  then show ?thesis
    by (simp add: list_ex_iff isEventEqual_iff image_iff)
qed

lemma set_push_owned:
  "set (push_owned ws es []) = (\<lambda>e. id_field (data e)) ` set es - (\<lambda>e. id_field (data e)) ` set ws"
  unfolding push_owned_eq withdrawn_iff by auto

section \<open>Hex digits and bytes\<close>

lemma digits_table: "list_all (\<lambda>n. digit_val (hex_digit n) = Some n) [0..<16]"
  by code_simp

lemma digit_val_hex_digit: "n < 16 \<Longrightarrow> digit_val (hex_digit n) = Some n"
  using digits_table by (simp add: list_all_iff)

lemma chars_table:
  "list_all (\<lambda>c. case digit_val c of None \<Rightarrow> True | Some n \<Rightarrow> n < 16 \<and> hex_digit n = c) Enum.enum"
  by code_simp

lemma hex_digit_digit_val: "digit_val c = Some n \<Longrightarrow> n < 16 \<and> hex_digit n = c"
proof -
  assume a: "digit_val c = Some n"
  have "c \<in> set Enum.enum" by (simp add: enum_UNIV)
  with chars_table have "case digit_val c of None \<Rightarrow> True | Some n \<Rightarrow> n < 16 \<and> hex_digit n = c"
    unfolding list_all_iff by blast
  with a show ?thesis by simp
qed

lemma unat_byte_of_digits:
  "hi < 16 \<Longrightarrow> lo < 16 \<Longrightarrow> unat (word_of_nat (16 * hi + lo) :: byte) = 16 * hi + lo"
proof -
  assume "hi < 16" "lo < 16"
  then have small: "16 * hi + lo < 256" by arith
  have "unat (word_of_nat (16 * hi + lo) :: byte) = (16 * hi + lo) mod 2 ^ LENGTH(8)"
    by (rule unat_of_nat)
  also have "\<dots> = 16 * hi + lo"
    using small by simp
  finally show ?thesis .
qed

lemma byte_of_digits: "(word_of_nat (16 * (unat b div 16) + unat b mod 16) :: byte) = b"
  by simp

lemma unat_byte_div_16: "unat (b :: byte) div 16 < 16"
  using unsigned_less [of b, where ?'a = nat] by simp

lemma Buffer_from_hex_toString: "Buffer_from_hex (buffer_toString_hex bs) = Some bs"
  by (induction bs)
     (simp_all add: buffer_toString_hex_def byte_hex_def digit_val_hex_digit unat_byte_div_16)

lemma toString_Buffer_from_hex:
  "Buffer_from_hex s = Some bs \<Longrightarrow> buffer_toString_hex bs = s"
proof (induction s arbitrary: bs rule: Buffer_from_hex.induct)
  case 1
  then show ?case by (simp add: buffer_toString_hex_def)
next
  case (2 c)
  then show ?case by simp
next
  case (3 c1 c2 rest)
  from "3.prems" obtain hi lo bs' where
    hi: "digit_val c1 = Some hi" and lo: "digit_val c2 = Some lo"
    and rest: "Buffer_from_hex rest = Some bs'" and bs: "bs = word_of_nat (16 * hi + lo) # bs'"
    by (auto split: option.splits)
  from hi lo have d: "hi < 16" "hex_digit hi = c1" "lo < 16" "hex_digit lo = c2"
    by (simp_all add: hex_digit_digit_val)
  have "buffer_toString_hex bs' = rest"
    using "3.IH" hi lo rest by simp
  then show ?case
    using d unat_byte_of_digits [of hi lo]
    by (simp add: bs buffer_toString_hex_def byte_hex_def)
qed

lemma Buffer_from_hex_accepts:
  "even (length s) \<Longrightarrow> list_all is_lower_hex s \<Longrightarrow> \<exists>bs. Buffer_from_hex s = Some bs"
proof (induction s rule: Buffer_from_hex.induct)
  case 1
  then show ?case by simp
next
  case (2 c)
  then show ?case by simp
next
  case (3 c1 c2 rest)
  from "3.prems" obtain hi lo where hi: "digit_val c1 = Some hi" and lo: "digit_val c2 = Some lo"
    by (auto simp: is_lower_hex_def)
  from "3.prems" have "even (length rest)" "list_all is_lower_hex rest"
    by simp_all
  with "3.IH" [OF hi lo] obtain bs where "Buffer_from_hex rest = Some bs"
    by blast
  with hi lo show ?case by simp
qed

lemma lower_hex_hex_digit: "n < 16 \<Longrightarrow> is_lower_hex (hex_digit n)"
  by (simp add: is_lower_hex_def digit_val_hex_digit)

lemma unat_byte_mod_16: "unat (b :: byte) mod 16 < 16"
  by simp

lemma lower_hex_buffer_toString: "list_all is_lower_hex (buffer_toString_hex bs)"
  by (induction bs)
     (simp_all add: buffer_toString_hex_def byte_hex_def lower_hex_hex_digit unat_byte_div_16)

lemma length_buffer_toString: "length (buffer_toString_hex bs) = 2 * length bs"
  by (induction bs) (simp_all add: buffer_toString_hex_def byte_hex_def)

lemma startsWith_0x_split: "startsWith_0x s \<Longrightarrow> s = ''0x'' @ drop 2 s"
  unfolding startsWith_0x_def by (metis append_take_drop_id)

lemma lower_hex_not_prefixed: "list_all is_lower_hex s \<Longrightarrow> \<not> startsWith_0x s"
proof
  assume hexs: "list_all is_lower_hex s" and pre: "startsWith_0x s"
  from pre have "s = ''0x'' @ drop 2 s" by (rule startsWith_0x_split)
  then have "CHR ''x'' \<in> set s" by (metis in_set_conv_decomp append_Cons append_Nil)
  with hexs have "is_lower_hex CHR ''x''" by (simp add: list_all_iff)
  then show False by (simp add: is_lower_hex_def digit_val_def)
qed

lemma toHex_eq: "toHex b = ''0x'' @ buffer_toString_hex b"
  by (simp add: toHex_def hex_def fromBuffer_def HexString_new_def
      lower_hex_not_prefixed lower_hex_buffer_toString)

lemma fromHex_eq: "fromHex s = Buffer_from_hex (if startsWith_0x s then drop 2 s else s)"
  by (simp add: fromHex_def toBuffer_def noPrefix_def HexString_new_def)

lemma canonical_eq: "canonical s = (if startsWith_0x s then s else ''0x'' @ s)"
  by (simp add: canonical_def hex_def HexString_new_def)

lemma startsWith_0x_prefixed: "startsWith_0x (CHR ''0'' # CHR ''x'' # s)"
  by (simp add: startsWith_0x_def)

lemma fromHex_toHex: "fromHex (toHex b) = Some b"
  by (simp add: fromHex_eq toHex_eq startsWith_0x_prefixed Buffer_from_hex_toString)

lemma toHex_fromHex:
  assumes "accepted_hex s"
  shows "\<exists>bs. fromHex s = Some bs \<and> toHex bs = canonical s"
proof -
  define body where "body = (if startsWith_0x s then drop 2 s else s)"
  from assms have "even (length body)" "list_all is_lower_hex body"
    by (simp_all add: accepted_hex_def body_def Let_def)
  then obtain bs where bs: "Buffer_from_hex body = Some bs"
    using Buffer_from_hex_accepts by blast
  then have "buffer_toString_hex bs = body"
    by (rule toString_Buffer_from_hex)
  then have "toHex bs = ''0x'' @ body"
    by (simp add: toHex_eq)
  also have "\<dots> = canonical s"
    using startsWith_0x_split [of s] by (auto simp: canonical_eq body_def)
  finally have "toHex bs = canonical s" .
  moreover have "fromHex s = Some bs"
    using bs by (simp add: fromHex_eq body_def)
  ultimately show ?thesis by blast
qed

text \<open>The expectations of the test file \<open>hex_string.test.js\<close>, on its own test vector.\<close>

lemma hex_string_tests:
  "map_option buffer_toString_hex (toBuffer (HexString_new ''0x007711b4d0'')) = Some ''007711b4d0''"
  "map_option (\<lambda>b. hex (fromBuffer b)) (toBuffer (HexString_new ''0x007711b4d0'')) = Some ''0x007711b4d0''"
  "map_option (\<lambda>b. hex (fromBuffer b)) (toBuffer (HexString_new ''007711b4d0'')) = Some ''0x007711b4d0''"
  "hex (HexString_new ''007711b4d0'') = ''0x007711b4d0''"
  "toString (HexString_new ''0x007711b4d0'') = ''0x007711b4d0''"
  "noPrefix (HexString_new ''007711b4d0'') = ''007711b4d0''"
  "noPrefix (ensure (Inl ''007711b4d0'')) = ''007711b4d0''"
  "hex (ensure (Inr (HexString_new ''0x007711b4d0''))) = ''0x007711b4d0''"
  by (simp_all add: toBuffer_def HexString_new_def startsWith_0x_def noPrefix_def hex_def toString_def
      fromBuffer_def buffer_toString_hex_def byte_hex_def hex_digit_def digit_val_def)

section \<open>Runs of the reconciler\<close>

lemma getTokenIds_resolved:
  assumes "getEventStream env addr ''0x1::Token::TokenStore'' ''deposit_events'' log = (Inr depositEvents, log1)"
    and "getEventStream env addr ''0x1::Token::TokenStore'' ''withdraw_events'' log1 = (Inr withdrawEvents, log2)"
  shows "getTokenIds env addr getAll getMinted log =
    (Inr (if getAll then push_all depositEvents []
          else if getMinted then push_minted addr depositEvents []
          else push_owned withdrawEvents depositEvents []), log2)"
  using assms by (simp add: getTokenIds_def await_def resolve_def)



lemma getEventStream_rejected:
  "fetch env log (event_url env addr h f) = Inl e \<Longrightarrow> fst (getEventStream env addr h f log) = Inl e"
  by (simp add: getEventStream_def await_def perform_fetch_def)

lemma demo_deposits:
  "getEventStream (demo_env a ds ws) a ''0x1::Token::TokenStore'' ''deposit_events'' log =
     (Inr ds, log @ [Fetch_GET (''http://node/accounts/'' @ a @ ''/events/0x1::Token::TokenStore/deposit_events'')])"
  by (simp add: getEventStream_def await_def perform_fetch_def resolve_def settled_def
      event_url_def demo_env_def demo_fetch_def ok_response_def)

lemma demo_withdrawals:
  "getEventStream (demo_env a ds ws) a ''0x1::Token::TokenStore'' ''withdraw_events'' log =
     (Inr ws, log @ [Fetch_GET (''http://node/accounts/'' @ a @ ''/events/0x1::Token::TokenStore/withdraw_events'')])"
  by (simp add: getEventStream_def await_def perform_fetch_def resolve_def settled_def
      event_url_def demo_env_def demo_fetch_def ok_response_def)

lemma owned_tokens_no_withdrawals: "set (push_owned [] depositEvents []) = identities depositEvents"
  by (simp add: set_push_owned identities_def)

lemma getTokenIds_missing_handles:
  assumes "\<And>log url. \<exists>r. fetch env log url = Inr r \<and> status r = 404"
  shows "fst (getTokenIds env addr getAll getMinted log) = Inr []"
proof -
  have "getEventStream env addr h f l = (Inr [], l @ [Fetch_GET (event_url env addr h f)])" for h f l
    using assms [of l "event_url env addr h f"]
    by (auto simp: getEventStream_def await_def perform_fetch_def resolve_def)
  then show ?thesis
    by (simp add: getTokenIds_def await_def resolve_def)
qed

section \<open>Decimal text and the transfer payload\<close>

lemma dec_digit_table: "list_all (\<lambda>d. (of_char (dec_digit d) :: nat) = 48 + d) [0..<10]"
  by code_simp

lemma of_char_dec_digit: "d < 10 \<Longrightarrow> (of_char (dec_digit d) :: nat) = 48 + d"
  using dec_digit_table by (simp add: list_all_iff)

lemma is_dec_digit_dec_digit: "d < 10 \<Longrightarrow> is_dec_digit (dec_digit d)"
  by (simp add: is_dec_digit_def of_char_dec_digit)

lemma dec_value_snoc: "dec_value (s @ [c]) = 10 * dec_value s + ((of_char c :: nat) - 48)"
  by (simp add: dec_value_def)

lemma dec_digits_nonempty: "dec_digits n \<noteq> []"
  by (subst dec_digits.simps) simp

lemma dec_digits_all_digits: "list_all is_dec_digit (dec_digits n)"
proof (induction n rule: dec_digits.induct)
  case (1 n)
  show ?case
  proof (cases "n < 10")
    case True
    then show ?thesis
      by (subst dec_digits.simps) (simp add: is_dec_digit_dec_digit)
  next
    case False
    with 1 show ?thesis
      by (subst dec_digits.simps) (simp add: is_dec_digit_dec_digit)
  qed
qed

lemma dec_value_dec_digits: "dec_value (dec_digits n) = n"
proof (induction n rule: dec_digits.induct)
  case (1 n)
  show ?case
  proof (cases "n < 10")
    case True
    then show ?thesis
      by (subst dec_digits.simps) (simp add: dec_value_def of_char_dec_digit)
  next
    case False
    then have "dec_value (dec_digits (n div 10)) = n div 10"
      using 1 by simp
    with False show ?thesis
      by (subst dec_digits.simps) (simp add: dec_value_snoc of_char_dec_digit)
  qed
qed

lemma Number_toString_nonneg:
  "0 \<le> amount \<Longrightarrow> amount \<le> MAX_SAFE_INTEGER \<Longrightarrow> Number_toString env amount = dec_digits (nat amount)"
  by (simp add: Number_toString_def MAX_SAFE_INTEGER_def)

lemma Number_toString_examples:
  "Number_toString env 0 = ''0''" "Number_toString env 20 = ''20''" "Number_toString env 10000 = ''10000''"
  "Number_toString env (- 5) = ''-5''"
  by (simp_all add: Number_toString_def MAX_SAFE_INTEGER_def dec_digits.simps dec_digit_def)

lemma Number_toString_inexact_range:
  "MAX_SAFE_INTEGER < amount \<Longrightarrow> Number_toString env amount = Number_toString_inexact env amount"
  by (simp add: Number_toString_def)

lemma RestClient_transfer_first_call:
  "\<exists>rest. snd (RestClient_transfer env accountFrom recipient amount log)
     = log @ Aptos_generateTransaction (account_address env accountFrom) (transfer_payload env recipient amount) # rest"
  by (auto simp: RestClient_transfer_def await_def perform_def settled_def Let_def
      split: sum.splits prod.splits)

section \<open>Account derivation\<close>

lemma getAccountFromMnemonic_invalid:
  "\<not> validateMnemonic env code \<Longrightarrow>
   getAccountFromMnemonic env code addr log = (Inl (Reject_string ''Incorrect mnemonic passed''), log)"
  by (simp add: getAccountFromMnemonic_def reject_def)

lemma getAccountFromMnemonic_valid:
  "validateMnemonic env code \<Longrightarrow>
   getAccountFromMnemonic env code addr log
     = (Inr (new_AptosAccount env (take 32 (mnemonicToSeedSync env code)) addr),
        log @ [Bip39_mnemonicToSeedSync code,
               AptosAccount_new (take 32 (mnemonicToSeedSync env code)) addr])"
  by (simp add: getAccountFromMnemonic_def await_def resolve_def
      perform_mnemonicToSeedSync_def perform_new_AptosAccount_def)

lemma getAccountFromMnemonic_rejected:
  "fst (getAccountFromMnemonic env code addr log) = Inl e \<Longrightarrow>
   getAccountFromMnemonic env code addr log = (Inl e, log)"
  by (cases "validateMnemonic env code")
     (simp_all add: getAccountFromMnemonic_invalid getAccountFromMnemonic_valid)

lemma account_of_eq: "account_of env code addr log = getAccountFromMnemonic env code (map_option Inl addr) log"
  by (simp add: account_of_def catch_def reject_def split: prod.splits sum.splits)

lemma account_of_rejected:
  assumes "fst (getAccountFromMnemonic env code (map_option Inl addr) log) = Inl e"
  shows "account_of env code addr log = (Inl e, log)"
  using getAccountFromMnemonic_rejected [OF assms] by (simp add: account_of_eq)

lemma await_account_rejected:
  assumes "fst (getAccountFromMnemonic env code (map_option Inl addr) log) = Inl e"
  shows "await (account_of env code addr) f log = (Inl e, log)"
  using account_of_rejected [OF assms] by (simp add: await_def)

section \<open>Claims\<close>

text \<open>
  C6. Converting a byte buffer to hex text and back is the identity; every accepted textual
  form, with or without the \<open>0x\<close> prefix, decodes to a buffer whose rendering is the
  canonical form of that text, and the canonical form decodes to the same buffer; the
  rendering of a buffer always starts with \<open>0x\<close>, has even length and has only lowercase
  hex digits behind the prefix.
\<close>

theorem hex_round_trip:
  "fromHex (toHex b) = Some b
   \<and> (accepted_hex s \<longrightarrow> (\<exists>bs. fromHex s = Some bs \<and> toHex bs = canonical s))
   \<and> (accepted_hex s \<longrightarrow> fromHex (canonical s) = fromHex s)
   \<and> startsWith_0x (toHex b)
   \<and> even (length (toHex b))
   \<and> list_all is_lower_hex (drop 2 (toHex b))"
proof -
  have rt: "fromHex (toHex b) = Some b"
    by (rule fromHex_toHex)
  have inv: "accepted_hex s \<longrightarrow> (\<exists>bs. fromHex s = Some bs \<and> toHex bs = canonical s)"
    by (simp add: toHex_fromHex)
  have canon: "fromHex (canonical s) = fromHex s"
    by (simp add: fromHex_eq canonical_eq startsWith_0x_prefixed)
  have pre: "startsWith_0x (toHex b)"
    by (simp add: toHex_eq startsWith_0x_prefixed)
  have len: "even (length (toHex b))"
    by (simp add: toHex_eq length_buffer_toString)
  have low: "list_all is_lower_hex (drop 2 (toHex b))"
    by (simp add: toHex_eq lower_hex_buffer_toString)
  from rt inv canon pre len low show ?thesis
    by blast
qed

theorem hex_round_trip_witness:
  "accepted_hex ''007711b4d0'' \<and> fromHex (toHex [0, 0x77, 0x11, 0xb4, 0xd0]) = Some [0, 0x77, 0x11, 0xb4, 0xd0]
   \<and> fromHex (canonical ''007711b4d0'') = fromHex ''007711b4d0''"
  using hex_round_trip [of "[0, 0x77, 0x11, 0xb4, 0xd0]" "''007711b4d0''"]
  by (simp add: accepted_hex_def startsWith_0x_def is_lower_hex_def digit_val_def)

text \<open>
  C1. Whatever the two fetched event streams are, the owned-tokens query
  (\<open>getTokenIds\<close> with \<open>getAll = false\<close> and \<open>getMinted = false\<close>) resolves to a list
  whose set of elements is exactly the set of identities that occur in a deposit event and
  in no withdrawal event. That set is the same for any other pair of streams with the same
  identities: amounts, sequence numbers, repetitions and order play no role.
\<close>

theorem owned_tokens_set_difference:
  assumes "getEventStream env addr ''0x1::Token::TokenStore'' ''deposit_events'' log = (Inr depositEvents, log1)"
    and "getEventStream env addr ''0x1::Token::TokenStore'' ''withdraw_events'' log1 = (Inr withdrawEvents, log2)"
  shows "\<exists>tokenIds. getTokenIds env addr False False log = (Inr tokenIds, log2)
     \<and> set tokenIds = {i \<in> identities depositEvents. i \<notin> identities withdrawEvents}
     \<and> (\<forall>deposits' withdrawals'.
          identities deposits' = identities depositEvents \<and> identities withdrawals' = identities withdrawEvents
          \<longrightarrow> set (push_owned withdrawals' deposits' []) = set tokenIds)"
proof -
  have run: "getTokenIds env addr False False log = (Inr (push_owned withdrawEvents depositEvents []), log2)"
    using assms by (simp add: getTokenIds_resolved)
  have diff: "set (push_owned ws ds []) = {i \<in> identities ds. i \<notin> identities ws}" for ws ds
    by (auto simp: set_push_owned identities_def)
  from run diff show ?thesis by simp
qed

text \<open>
  Deposits of A, B and C with a withdrawal of B yield A and C.
\<close>

theorem owned_tokens_set_difference_witness:
  "\<exists>tokenIds.
     getTokenIds
       (demo_env ''a1''
          [ev 0 (token ''0xa1'' ''A'') 1, ev 1 (token ''0xb2'' ''B'') 5, ev 2 (token ''0xa1'' ''C'') 1]
          [ev 0 (token ''0xb2'' ''B'') 2])
       ''a1'' False False []
     = (Inr tokenIds,
        [Fetch_GET ''http://node/accounts/a1/events/0x1::Token::TokenStore/deposit_events'',
         Fetch_GET ''http://node/accounts/a1/events/0x1::Token::TokenStore/withdraw_events''])
     \<and> set tokenIds = {token ''0xa1'' ''A'', token ''0xa1'' ''C''}"
proof -
  let ?D = "[ev 0 (token ''0xa1'' ''A'') 1, ev 1 (token ''0xb2'' ''B'') 5, ev 2 (token ''0xa1'' ''C'') 1]"
  let ?W = "[ev 0 (token ''0xb2'' ''B'') 2]"
  show ?thesis
    using owned_tokens_set_difference
      [OF demo_deposits [of "''a1''" ?D ?W "[]"] demo_withdrawals [of "''a1''" ?D ?W]]
    by (auto simp: identities_def ev_def token_def)
qed







text \<open>
  C8. When the fetch of an event stream answers with status 404, \<open>getEventStream\<close>
  resolves to the empty list, after that one request.
\<close>

theorem missing_event_handle_is_empty_stream:
  assumes "fetch env log (event_url env addr eventHandleStruct fieldName) = Inr response"
    and "status response = 404"
  shows "getEventStream env addr eventHandleStruct fieldName log =
    (Inr [], log @ [Fetch_GET (event_url env addr eventHandleStruct fieldName)])"
  using assms
  by (simp add: getEventStream_def await_def perform_fetch_def resolve_def)

theorem missing_event_handle_is_empty_stream_witness:
  "fetch (demo_env ''a1'' [] []) [] (event_url (demo_env ''a1'' [] []) ''b2'' ''0x1::Token::TokenStore'' ''deposit_events'')
     = Inr not_found
   \<and> status not_found = 404
   \<and> getEventStream (demo_env ''a1'' [] []) ''b2'' ''0x1::Token::TokenStore'' ''deposit_events'' []
     = (Inr [], [Fetch_GET ''http://node/accounts/b2/events/0x1::Token::TokenStore/deposit_events''])"
proof -
  have r: "fetch (demo_env ''a1'' [] []) []
      (event_url (demo_env ''a1'' [] []) ''b2'' ''0x1::Token::TokenStore'' ''deposit_events'') = Inr not_found"
    by (simp add: demo_env_def demo_fetch_def event_url_def)
  have s: "status not_found = 404"
    by (simp add: not_found_def)
  show ?thesis
    using missing_event_handle_is_empty_stream [OF r s] r s
    by (simp add: event_url_def demo_env_def)
qed

text \<open>
  C9. With \<open>getAll = true\<close>, \<open>getTokenIds\<close> resolves to the identity of every
  deposit event, one entry per event in stream order, whatever \<open>getMinted\<close> and the
  withdrawal events are.
\<close>

theorem getAll_returns_every_deposit:
  assumes "getEventStream env addr ''0x1::Token::TokenStore'' ''deposit_events'' log = (Inr depositEvents, log1)"
    and "getEventStream env addr ''0x1::Token::TokenStore'' ''withdraw_events'' log1 = (Inr withdrawEvents, log2)"
  shows "getTokenIds env addr True getMinted log = (Inr (map (\<lambda>e. id_field (data e)) depositEvents), log2)"
  using assms by (simp add: getTokenIds_resolved push_all_eq)

theorem getAll_returns_every_deposit_witness:
  "getTokenIds
     (demo_env ''a1'' [ev 0 (token ''0xa1'' ''A'') 1, ev 1 (token ''0xb2'' ''B'') 5, ev 2 (token ''0xa1'' ''A'') 1]
        [ev 0 (token ''0xa1'' ''A'') 2])
     ''a1'' True True []
   = (Inr [token ''0xa1'' ''A'', token ''0xb2'' ''B'', token ''0xa1'' ''A''],
      [Fetch_GET ''http://node/accounts/a1/events/0x1::Token::TokenStore/deposit_events'',
       Fetch_GET ''http://node/accounts/a1/events/0x1::Token::TokenStore/withdraw_events''])"
proof -
  let ?D = "[ev 0 (token ''0xa1'' ''A'') 1, ev 1 (token ''0xb2'' ''B'') 5, ev 2 (token ''0xa1'' ''A'') 1]"
  let ?W = "[ev 0 (token ''0xa1'' ''A'') 2]"
  show ?thesis
    using getAll_returns_every_deposit
      [OF demo_deposits [of "''a1''" ?D ?W "[]"] demo_withdrawals [of "''a1''" ?D ?W], of True]
    by (simp add: ev_def)
qed

text \<open>
  C5, as stated, fails: \<open>RestClient.transfer\<close> checks nothing. With the empty recipient
  and the amount \<open>-5\<close> it builds the payload with the arguments \<open>0x\<close> and \<open>-5\<close>, and
  the transaction is generated, signed and submitted.
\<close>

theorem transfer_no_validation_counterexample:
  "RestClient_transfer (demo_env ''a1'' [] []) ([], None) [] (- 5) [] =
     (Inr ''0xhash'',
      [Aptos_generateTransaction (MkHexString ''0x'')
         \<lparr> type_field = ''script_function_payload'', function_field = ''0x1::TestCoin::transfer'',
           type_arguments = [], arguments = [''0x'', ''-5''] \<rparr>,
       Aptos_signTransaction ([], None) ''0xhash'',
       Aptos_submitTransaction ([], None) ''0xhash''])"
  by (simp add: RestClient_transfer_def await_def perform_def settled_def transfer_payload_def
      demo_env_def demo_address_def fromBuffer_def buffer_toString_hex_def HexString_new_def
      startsWith_0x_def toString_def hex_def Number_toString_def MAX_SAFE_INTEGER_def
      dec_digits.simps dec_digit_def)

text \<open>
  C5, amended. For every recipient and amount, with no check of either, the transfer
  payload has the type \<open>script_function_payload\<close>, the function
  \<open>0x1::TestCoin::transfer\<close>, no type arguments, and two ordered arguments: the recipient
  in \<open>0x\<close>-prefixed form (the prefix is added when it is absent) and the amount as the
  text that \<open>toString\<close> gives. For a non-negative integer amount up to
  \<open>Number.MAX_SAFE_INTEGER\<close> that text is a non-empty string of decimal digits that
  denotes the amount; for a larger amount it is the engine's own rendering, which is not
  the digits of the amount (\<open>1e+21\<close> for \<open>1e21\<close>). The payload is what the builder hands
  to \<open>generateTransaction\<close>, its first call.
\<close>

theorem transfer_payload_encoding:
  "type_field (transfer_payload env recipient amount) = ''script_function_payload''
   \<and> function_field (transfer_payload env recipient amount) = ''0x1::TestCoin::transfer''
   \<and> type_arguments (transfer_payload env recipient amount) = []
   \<and> arguments (transfer_payload env recipient amount)
       = [if startsWith_0x recipient then recipient else ''0x'' @ recipient, Number_toString env amount]
   \<and> startsWith_0x (hd (arguments (transfer_payload env recipient amount)))
   \<and> (0 \<le> amount \<and> amount \<le> MAX_SAFE_INTEGER \<longrightarrow>
        Number_toString env amount \<noteq> []
        \<and> list_all is_dec_digit (Number_toString env amount)
        \<and> int (dec_value (Number_toString env amount)) = amount)
   \<and> (MAX_SAFE_INTEGER < amount \<longrightarrow> Number_toString env amount = Number_toString_inexact env amount)
   \<and> (\<exists>rest. snd (RestClient_transfer env accountFrom recipient amount log)
        = log @ Aptos_generateTransaction (account_address env accountFrom)
                  (transfer_payload env recipient amount) # rest)"
proof -
  have args: "arguments (transfer_payload env recipient amount)
       = [if startsWith_0x recipient then recipient else ''0x'' @ recipient, Number_toString env amount]"
    by (simp add: transfer_payload_def toString_def hex_def HexString_new_def)
  have pre: "startsWith_0x (hd (arguments (transfer_payload env recipient amount)))"
    unfolding args by (simp add: startsWith_0x_prefixed)
  have dec: "0 \<le> amount \<and> amount \<le> MAX_SAFE_INTEGER \<longrightarrow>
        Number_toString env amount \<noteq> []
        \<and> list_all is_dec_digit (Number_toString env amount)
        \<and> int (dec_value (Number_toString env amount)) = amount"
    by (simp add: Number_toString_nonneg dec_digits_nonempty dec_digits_all_digits dec_value_dec_digits)
  have big: "MAX_SAFE_INTEGER < amount \<longrightarrow> Number_toString env amount = Number_toString_inexact env amount"
    by (simp add: Number_toString_inexact_range)
  have fields: "type_field (transfer_payload env recipient amount) = ''script_function_payload''
     \<and> function_field (transfer_payload env recipient amount) = ''0x1::TestCoin::transfer''
     \<and> type_arguments (transfer_payload env recipient amount) = []"
    by (simp add: transfer_payload_def)
  from fields args pre dec big RestClient_transfer_first_call [of env accountFrom recipient amount log]
  show ?thesis by blast
qed

theorem transfer_payload_encoding_witness:
  "(0::int) \<le> 20 \<and> 20 \<le> MAX_SAFE_INTEGER
   \<and> arguments (transfer_payload (demo_env ''a1'' [] []) ''b2'' 20) = [''0xb2'', ''20'']
   \<and> list_all is_dec_digit (Number_toString (demo_env ''a1'' [] []) 20)
   \<and> int (dec_value (Number_toString (demo_env ''a1'' [] []) 20)) = 20
   \<and> MAX_SAFE_INTEGER < 1000000000000000000000
   \<and> Number_toString (demo_env ''a1'' [] []) 1000000000000000000000 = ''1e+21''"
  using transfer_payload_encoding [of "demo_env ''a1'' [] []" "''b2''" 20 "([], None)" "[]"]
    transfer_payload_encoding [of "demo_env ''a1'' [] []" "''b2''" 1000000000000000000000 "([], None)" "[]"]
  by (simp add: startsWith_0x_def Number_toString_examples MAX_SAFE_INTEGER_def demo_env_def)

text \<open>
  C3. For a mnemonic that fails validation, \<open>getAccountFromMnemonic\<close> is rejected with
  the string \<open>Incorrect mnemonic passed\<close> and the calls made are the ones made before:
  neither the seed derivation nor the account constructor has been called, so no key
  material has been produced; the rejection is the same whatever the two would return.
  For a mnemonic that passes validation it derives the seed, constructs the account from
  the first 32 bytes of that seed and the address passed in, in this order, and resolves
  to that account.
\<close>

theorem getAccountFromMnemonic_validates_first:
  "(\<not> validateMnemonic env code \<longrightarrow>
      (\<forall>seed_of make.
         getAccountFromMnemonic (env \<lparr> mnemonicToSeedSync := seed_of, new_AptosAccount := make \<rparr>) code addr log
           = (Inl (Reject_string ''Incorrect mnemonic passed''), log)))
   \<and> (validateMnemonic env code \<longrightarrow>
        getAccountFromMnemonic env code addr log
          = (Inr (new_AptosAccount env (take 32 (mnemonicToSeedSync env code)) addr),
             log @ [Bip39_mnemonicToSeedSync code,
                    AptosAccount_new (take 32 (mnemonicToSeedSync env code)) addr]))"
  by (simp add: getAccountFromMnemonic_invalid getAccountFromMnemonic_valid)

theorem getAccountFromMnemonic_validates_first_witness:
  "\<not> validateMnemonic (demo_env ''a1'' [] []) ''zoo zoo zoo''
   \<and> getAccountFromMnemonic (demo_env ''a1'' [] []) ''zoo zoo zoo'' None []
       = (Inl (Reject_string ''Incorrect mnemonic passed''), [])
   \<and> validateMnemonic (demo_env ''a1'' [] []) ''abandon ability able''
   \<and> getAccountFromMnemonic (demo_env ''a1'' [] []) ''abandon ability able'' None []
       = (Inr (replicate 32 1, None),
          [Bip39_mnemonicToSeedSync ''abandon ability able'', AptosAccount_new (replicate 32 1) None])"
  using getAccountFromMnemonic_validates_first [of "demo_env ''a1'' [] []" "''zoo zoo zoo''" None "[]"]
    getAccountFromMnemonic_validates_first [of "demo_env ''a1'' [] []" "''abandon ability able''" None "[]"]
  by (simp add: demo_env_def getAccountFromMnemonic_def reject_def)

text \<open>
  C7. When the derivation of the account from the mnemonic is rejected with a value, each
  of the seven facade operations that take a mnemonic (\<open>transfer\<close>,
  \<open>createNFTCollection\<close>, \<open>createNFT\<close>, \<open>offerNFT\<close>, \<open>cancelNFTOffer\<close>,
  \<open>claimNFT\<close>, \<open>signGenericTransaction\<close>) is rejected with that same value, and the
  calls made are the ones made before: no transaction is built, signed or submitted.
\<close>

theorem facade_propagates_derivation_failure:
  assumes "fst (getAccountFromMnemonic env code (map_option Inl addr) log) = Inl e"
  shows "transfer env code recipient_address amount addr log = (Inl e, log)
     \<and> createNFTCollection env code name_arg description uri addr log = (Inl e, log)
     \<and> createNFT env code collection_name name_arg description supply uri addr log = (Inl e, log)
     \<and> offerNFT env code receiver_address creator_address collection_name token_name amount addr log = (Inl e, log)
     \<and> cancelNFTOffer env code receiver_address creator_address collection_name token_name addr log = (Inl e, log)
     \<and> claimNFT env code sender_address creator_address collection_name token_name addr log = (Inl e, log)
     \<and> signGenericTransaction env code func addr args log = (Inl e, log)"
proof -
  note rejected = await_account_rejected [OF assms]
  show ?thesis
    unfolding transfer_def createNFTCollection_def createNFT_def offerNFT_def cancelNFTOffer_def
      claimNFT_def signGenericTransaction_def
    by (simp add: rejected)
qed

theorem facade_propagates_derivation_failure_witness:
  "fst (getAccountFromMnemonic (demo_env ''a1'' [] []) ''zoo zoo zoo'' (map_option Inl (Some ''a1'')) [])
     = Inl (Reject_string ''Incorrect mnemonic passed'')
   \<and> transfer (demo_env ''a1'' [] []) ''zoo zoo zoo'' ''b2'' 20 (Some ''a1'') []
       = (Inl (Reject_string ''Incorrect mnemonic passed''), [])
   \<and> offerNFT (demo_env ''a1'' [] []) ''zoo zoo zoo'' ''b2'' ''a1'' ''AliceCollection'' ''AliceToken'' 1 (Some ''a1'') []
       = (Inl (Reject_string ''Incorrect mnemonic passed''), [])
   \<and> signGenericTransaction (demo_env ''a1'' [] []) ''zoo zoo zoo'' ''0x1::TestCoin::transfer'' (Some ''a1'') [''0xb2'', ''10''] []
       = (Inl (Reject_string ''Incorrect mnemonic passed''), [])"
proof -
  have h: "fst (getAccountFromMnemonic (demo_env ''a1'' [] []) ''zoo zoo zoo'' (map_option Inl (Some ''a1'')) [])
     = Inl (Reject_string ''Incorrect mnemonic passed'')"
    by (simp add: getAccountFromMnemonic_def reject_def demo_env_def)
  show ?thesis
    using facade_propagates_derivation_failure [OF h] h by simp
qed

text \<open>
  C10. Whenever \<open>importWallet\<close> resolves, the mnemonic was valid and the calls it made
  are the derivation of the account (seed, then constructor) followed by \<open>fundAccount\<close>
  with the amount 10 on the authentication key of that account, and nothing else; for
  every valid mnemonic those calls are made, whether the faucet then succeeds or not. The
  same holds for \<open>createWallet\<close>, after the generation of its mnemonic.
\<close>

theorem wallets_are_funded:
  "(\<forall>w log'. importWallet env code addr log = (Inr w, log') \<longrightarrow>
       validateMnemonic env code
       \<and> auth_key w = account_authKey env
           (new_AptosAccount env (take 32 (mnemonicToSeedSync env code)) (map_option Inl addr))
       \<and> log' = log @ [Bip39_mnemonicToSeedSync code,
                        AptosAccount_new (take 32 (mnemonicToSeedSync env code)) (map_option Inl addr),
                        Faucet_fundAccount (Inr (auth_key w)) 10])
   \<and> (validateMnemonic env code \<longrightarrow>
        snd (importWallet env code addr log)
          = log @ [Bip39_mnemonicToSeedSync code,
                   AptosAccount_new (take 32 (mnemonicToSeedSync env code)) (map_option Inl addr),
                   Faucet_fundAccount
                     (Inr (account_authKey env
                        (new_AptosAccount env (take 32 (mnemonicToSeedSync env code)) (map_option Inl addr)))) 10])
   \<and> (\<forall>w log'. createWallet env log = (Inr w, log') \<longrightarrow>
        code_field w = generateMnemonic env log
        \<and> validateMnemonic env (code_field w)
        \<and> log' = log @ [Bip39_generateMnemonic,
                         Bip39_mnemonicToSeedSync (code_field w),
                         AptosAccount_new (take 32 (mnemonicToSeedSync env (code_field w))) None,
                         Faucet_fundAccount
                           (Inr (account_authKey env
                              (new_AptosAccount env (take 32 (mnemonicToSeedSync env (code_field w))) None))) 10])
   \<and> (validateMnemonic env (generateMnemonic env log) \<longrightarrow>
        snd (createWallet env log)
          = log @ [Bip39_generateMnemonic,
                   Bip39_mnemonicToSeedSync (generateMnemonic env log),
                   AptosAccount_new (take 32 (mnemonicToSeedSync env (generateMnemonic env log))) None,
                   Faucet_fundAccount
                     (Inr (account_authKey env
                        (new_AptosAccount env (take 32 (mnemonicToSeedSync env (generateMnemonic env log))) None))) 10])"
proof -
  have imp: "importWallet env code addr log =
      (if \<not> validateMnemonic env code then (Inl (Reject_string ''Incorrect mnemonic passed''), log)
       else let key = take 32 (mnemonicToSeedSync env code);
                account = new_AptosAccount env key (map_option Inl addr);
                derived = log @ [Bip39_mnemonicToSeedSync code, AptosAccount_new key (map_option Inl addr)];
                fund = Faucet_fundAccount (Inr (account_authKey env account)) 10
            in (case collaborator env derived fund of
                  Inl e \<Rightarrow> Inl e
                | Inr _ \<Rightarrow> Inr \<lparr> auth_key = account_authKey env account,
                                address_key' = noPrefix (account_address env account) \<rparr>,
                derived @ [fund]))"
    by (simp add: importWallet_def await_def account_of_eq getAccountFromMnemonic_invalid
        getAccountFromMnemonic_valid perform_def resolve_def Let_def split: sum.splits)
  have cre: "createWallet env log =
      (let code = generateMnemonic env log in
       if \<not> validateMnemonic env code
       then (Inl (Reject_string ''Incorrect mnemonic passed''), log @ [Bip39_generateMnemonic])
       else let key = take 32 (mnemonicToSeedSync env code);
                account = new_AptosAccount env key None;
                derived = log @ [Bip39_generateMnemonic, Bip39_mnemonicToSeedSync code, AptosAccount_new key None];
                fund = Faucet_fundAccount (Inr (account_authKey env account)) 10
            in (case collaborator env derived fund of
                  Inl e \<Rightarrow> Inl e
                | Inr _ \<Rightarrow> Inr \<lparr> code_field = code,
                                address_key = noPrefix (account_address env account) \<rparr>,
                derived @ [fund]))"
    by (simp add: createWallet_def await_def account_of_eq getAccountFromMnemonic_invalid
        getAccountFromMnemonic_valid perform_def perform_generateMnemonic_def resolve_def Let_def
        split: sum.splits)
  show ?thesis
    unfolding imp cre by (auto simp: Let_def split: sum.splits if_splits)
qed

theorem wallets_are_funded_witness:
  "importWallet (demo_env ''a1'' [] []) ''abandon ability able'' None []
     = (Inr \<lparr> auth_key = MkHexString ''0x0101010101010101010101010101010101010101010101010101010101010101'',
             address_key' = ''0101010101010101010101010101010101010101010101010101010101010101'' \<rparr>,
        [Bip39_mnemonicToSeedSync ''abandon ability able'',
         AptosAccount_new (replicate 32 1) None,
         Faucet_fundAccount
           (Inr (MkHexString ''0x0101010101010101010101010101010101010101010101010101010101010101'')) 10])
   \<and> snd (createWallet (demo_env ''a1'' [] []) [])
     = [Bip39_generateMnemonic,
        Bip39_mnemonicToSeedSync ''abandon ability able'',
        AptosAccount_new (replicate 32 1) None,
        Faucet_fundAccount
          (Inr (MkHexString ''0x0101010101010101010101010101010101010101010101010101010101010101'')) 10]"
proof -
  have fb: "fromBuffer (replicate 32 1)
      = MkHexString ''0x0101010101010101010101010101010101010101010101010101010101010101''"
    by code_simp
  have v: "validateMnemonic (demo_env ''a1'' [] []) (generateMnemonic (demo_env ''a1'' [] []) [])"
    by (simp add: demo_env_def)
  have i: "importWallet (demo_env ''a1'' [] []) ''abandon ability able'' None []
     = (Inr \<lparr> auth_key = MkHexString ''0x0101010101010101010101010101010101010101010101010101010101010101'',
             address_key' = ''0101010101010101010101010101010101010101010101010101010101010101'' \<rparr>,
        [Bip39_mnemonicToSeedSync ''abandon ability able'',
         AptosAccount_new (replicate 32 1) None,
         Faucet_fundAccount
           (Inr (MkHexString ''0x0101010101010101010101010101010101010101010101010101010101010101'')) 10])"
    by (simp add: importWallet_def await_def account_of_eq getAccountFromMnemonic_def perform_def
        perform_mnemonicToSeedSync_def perform_new_AptosAccount_def
        resolve_def demo_env_def demo_address_def fb noPrefix_def)
  show ?thesis
    using wallets_are_funded [of "demo_env ''a1'' [] []" "''abandon ability able''" None "[]"] v i
    by (simp add: demo_env_def fb)
qed

end
